theory Spec2Isabelle
  imports Main
begin

section \<open>JavaScript values that can be thrown, and their String conversion\<close>

text \<open>
  The values a \<^verbatim>\<open>catch (error)\<close> clause of startHappyServer.ts can receive: primitives
  and Error objects (with their \<^verbatim>\<open>name\<close> and \<^verbatim>\<open>message\<close>). Numbers and objects with a
  user-defined \<^verbatim>\<open>toString\<close> are left out.
\<close>

datatype js_value =
    JUndefined
  | JNull
  | JBool bool
  | JString string
  | JError string string

text \<open>
  \<^verbatim>\<open>String(error)\<close>. For an Error object this is \<^verbatim>\<open>Error.prototype.toString\<close>: the name
  alone when the message is empty, the message alone when the name is empty, and
  \<^verbatim>\<open>name + ": " + message\<close> otherwise.
\<close>

fun js_String :: "js_value \<Rightarrow> string" where
  "js_String JUndefined = ''undefined''"
| "js_String JNull = ''null''"
| "js_String (JBool b) = (if b then ''true'' else ''false'')"
| "js_String (JString s) = s"
| "js_String (JError name msg) =
     (if name = [] then msg
      else if msg = [] then name
      else name @ '': '' @ msg)"

text \<open>\<^verbatim>\<open>a || b\<close> on an optional string: \<^verbatim>\<open>undefined\<close> and the empty string are falsy.\<close>

fun js_or :: "string option \<Rightarrow> string \<Rightarrow> string" where
  "js_or None d = d"
| "js_or (Some s) d = (if s = [] then d else s)"

section \<open>The session client and the world the gateway runs in\<close>

record session_message =
  msg_type :: string
  summary :: string
  leafUuid :: string

text \<open>
  What a call of \<^verbatim>\<open>client.sendClaudeSessionMessage\<close> hands back to its caller when it does
  not throw: either delivery is complete, or the call returned while delivery is still
  in flight (a promise, or an internal queue), to succeed (\<open>None\<close>) or fail (\<open>Some e\<close>)
  later.
\<close>

datatype send_return = Delivered | InFlight "js_value option"

text \<open>
  ApiSessionClient is imported, not defined, by this file: its send capability is a
  parameter. \<open>Inl e\<close> is a synchronous throw of \<open>e\<close>.
\<close>

record api_session_client =
  sessionId :: string
  sendClaudeSessionMessage :: "session_message \<Rightarrow> js_value + send_return"

record handler_response =
  success :: bool
  error :: "string option"

datatype log_arg = LStr string | LResponse handler_response | LValue js_value

datatype listener_state = Created | Listening nat | Stopped

text \<open>
  The effects of the file, made explicit: the host name read from the OS, the random
  UUIDs drawn so far (\<open>uuid_source\<close> is the generator's output sequence), the calls
  the session client has received, the debug log, the references of the objects
  constructed with \<^verbatim>\<open>new\<close>, the registry and transport that served each request, the calls
  of \<^verbatim>\<open>server.listen\<close>, the state of the listening socket, and the \<^verbatim>\<open>'error'\<close> events emitted
  on the server with no listener registered for them.
\<close>

record world =
  os_hostname :: string
  uuid_source :: "nat \<Rightarrow> string"
  uuids_drawn :: nat
  send_calls :: "session_message list"
  debug_log :: "log_arg list list"
  next_ref :: nat
  served :: "(nat \<times> nat) list"
  listen_calls :: "(nat \<times> string) list"
  listener :: listener_state
  unhandled_errors :: "js_value list"

definition hostname :: "world \<Rightarrow> string \<times> world" where
  "hostname w = (os_hostname w, w)"

definition randomUUID :: "world \<Rightarrow> string \<times> world" where
  "randomUUID w = (uuid_source w (uuids_drawn w), w\<lparr>uuids_drawn := Suc (uuids_drawn w)\<rparr>)"

definition logger_debug :: "log_arg list \<Rightarrow> world \<Rightarrow> world" where
  "logger_debug args w = w\<lparr>debug_log := debug_log w @ [args]\<rparr>"

definition client_send ::
  "api_session_client \<Rightarrow> session_message \<Rightarrow> world \<Rightarrow> (js_value + send_return) \<times> world" where
  "client_send client m w =
     (sendClaudeSessionMessage client m, w\<lparr>send_calls := send_calls w @ [m]\<rparr>)"

text \<open>\<^verbatim>\<open>try { body } catch (error) { recover }\<close> over any state.\<close>

definition try_catch ::
  "('s \<Rightarrow> (js_value + 'a) \<times> 's) \<Rightarrow> (js_value \<Rightarrow> 's \<Rightarrow> (js_value + 'a) \<times> 's)
     \<Rightarrow> 's \<Rightarrow> (js_value + 'a) \<times> 's" where
  "try_catch body recover s =
     (case body s of
        (Inl e, s') \<Rightarrow> recover e s'
      | (Inr v, s') \<Rightarrow> (Inr v, s'))"

section \<open>The title handler and the change_title tool\<close>

definition prefixed :: "string \<Rightarrow> string \<Rightarrow> string" where
  "prefixed host t = ''['' @ host @ ''] '' @ t"

text \<open>
  Lines 23 to 38. The value that \<^verbatim>\<open>sendClaudeSessionMessage\<close> returns is dropped: the call
  is not awaited.
\<close>

definition handler ::
  "api_session_client \<Rightarrow> string \<Rightarrow> world \<Rightarrow> (js_value + handler_response) \<times> world" where
  "handler client t w0 =
     (let (host, w1) = hostname w0;
          prefixedTitle = prefixed host t;
          w2 = logger_debug [LStr ''[happyMCP] Changing title to:'', LStr prefixedTitle] w1
      in try_catch
           (\<lambda>w. let (uuid, w3) = randomUUID w;
                    (r, w4) = client_send client
                       \<lparr>msg_type = ''summary'', summary = prefixedTitle, leafUuid = uuid\<rparr> w3
                in (case r of
                      Inl e \<Rightarrow> (Inl e, w4)
                    | Inr _ \<Rightarrow> (Inr \<lparr>success = True, error = None\<rparr>, w4)))
           (\<lambda>e w. (Inr \<lparr>success = False, error = Some (js_String e)\<rparr>, w))
           w2)"

record tool_args =
  title :: string

record content_block =
  block_type :: string
  block_text :: string

record call_tool_result =
  content :: "content_block list"
  isError :: bool

definition success_text :: "string \<Rightarrow> string" where
  "success_text t = ''Successfully changed chat title to: '' @ [CHR 0x22] @ t @ [CHR 0x22]"

definition failure_text :: "string option \<Rightarrow> string" where
  "failure_text err = ''Failed to change chat title: '' @ js_or err ''Unknown error''"

text \<open>Lines 57 to 82: the callback registered for \<^verbatim>\<open>change_title\<close>.\<close>

definition change_title ::
  "api_session_client \<Rightarrow> tool_args \<Rightarrow> world \<Rightarrow> (js_value + call_tool_result) \<times> world" where
  "change_title client args w0 =
     (case handler client (title args) w0 of
        (Inl e, w1) \<Rightarrow> (Inl e, w1)
      | (Inr response, w1) \<Rightarrow>
          (let w2 = logger_debug [LStr ''[happyMCP] Response:'', LResponse response] w1
           in if success response
              then (Inr \<lparr>content = [\<lparr>block_type = ''text'',
                                     block_text = success_text (title args)\<rparr>],
                         isError = False\<rparr>, w2)
              else (Inr \<lparr>content = [\<lparr>block_type = ''text'',
                                     block_text = failure_text (error response)\<rparr>],
                         isError = True\<rparr>, w2)))"

section \<open>The per-request registry and transport\<close>

text \<open>
  The HTTP response object \<^verbatim>\<open>res\<close>, as far as the request handler reads and writes it.
\<close>

record response =
  headersSent :: bool
  statusCode :: nat
  body :: string
  writableEnded :: bool

definition fresh_response :: response where
  "fresh_response = \<lparr>headersSent = False, statusCode = 200, body = [], writableEnded = False\<rparr>"

text \<open>\<^verbatim>\<open>res.writeHead(code)\<close> throws when the headers are already sent.\<close>

definition writeHead :: "nat \<Rightarrow> response \<Rightarrow> js_value + response" where
  "writeHead code res =
     (if headersSent res then Inl (JError ''Error'' ''Cannot write headers after they are sent to the client'')
      else Inr (res\<lparr>statusCode := code, headersSent := True\<rparr>))"

text \<open>\<^verbatim>\<open>res.end()\<close> with no argument: no body data is written.\<close>

definition end_response :: "response \<Rightarrow> response" where
  "end_response res = res\<lparr>writableEnded := True\<rparr>"

record mcp_server =
  mcp_ref :: nat
  tool_names :: "string list"

record transport =
  transport_ref :: nat

text \<open>
  The protocol SDK is imported, not defined, by this file. What it does while one request
  is handled is a parameter: whether each constructor and \<^verbatim>\<open>connect\<close> throw (\<open>Some e\<close>),
  which \<^verbatim>\<open>change_title\<close> invocations the transport decodes from the request and dispatches
  to the registered callback, and how the transport writes the response from their results
  (possibly throwing after a partial write).
\<close>

record sdk_run =
  new_McpServer :: "js_value option"
  registerTool :: "js_value option"
  new_Transport :: "js_value option"
  connect :: "js_value option"
  tool_calls :: "tool_args list"
  respond :: "(js_value + call_tool_result) list \<Rightarrow> response \<Rightarrow> (js_value + unit) \<times> response"

text \<open>\<^verbatim>\<open>new\<close>: every constructed object gets a reference never handed out before.\<close>

definition new_object :: "world \<Rightarrow> nat \<times> world" where
  "new_object w = (next_ref w, w\<lparr>next_ref := Suc (next_ref w)\<rparr>)"

text \<open>Lines 45 to 85.\<close>

definition createMcpServer :: "sdk_run \<Rightarrow> world \<Rightarrow> (js_value + mcp_server) \<times> world" where
  "createMcpServer sdk w =
     (case new_McpServer sdk of
        Some e \<Rightarrow> (Inl e, w)
      | None \<Rightarrow>
          (let (r, w1) = new_object w
           in case registerTool sdk of
                Some e \<Rightarrow> (Inl e, w1)
              | None \<Rightarrow> (Inr \<lparr>mcp_ref = r, tool_names = [''change_title'']\<rparr>, w1)))"

definition new_StreamableHTTPServerTransport ::
  "sdk_run \<Rightarrow> world \<Rightarrow> (js_value + transport) \<times> world" where
  "new_StreamableHTTPServerTransport sdk w =
     (case new_Transport sdk of
        Some e \<Rightarrow> (Inl e, w)
      | None \<Rightarrow> (let (r, w1) = new_object w in (Inr \<lparr>transport_ref = r\<rparr>, w1)))"

text \<open>The dispatched invocations run the registered callback one after the other.\<close>

fun run_tool_calls ::
  "api_session_client \<Rightarrow> tool_args list \<Rightarrow> world \<Rightarrow> (js_value + call_tool_result) list \<times> world" where
  "run_tool_calls client [] w = ([], w)"
| "run_tool_calls client (a # as) w =
     (let (r, w1) = change_title client a w;
          (rs, w2) = run_tool_calls client as w1
      in (r # rs, w2))"

text \<open>
  \<^verbatim>\<open>transport.handleRequest(req, res)\<close> on the transport connected to \<open>mcp\<close>; the pair of
  references that serves the request is recorded.
\<close>

definition handleRequest ::
  "api_session_client \<Rightarrow> sdk_run \<Rightarrow> mcp_server \<Rightarrow> transport \<Rightarrow> response \<times> world
     \<Rightarrow> (js_value + unit) \<times> response \<times> world" where
  "handleRequest client sdk mcp tr s =
     (let (res, w) = s;
          w0 = w\<lparr>served := served w @ [(mcp_ref mcp, transport_ref tr)]\<rparr>;
          (results, w1) = run_tool_calls client (tool_calls sdk) w0;
          (out, res') = respond sdk results res
      in (out, res', w1))"

text \<open>Lines 91 to 105: the callback given to \<^verbatim>\<open>createServer\<close>.\<close>

definition request_body ::
  "api_session_client \<Rightarrow> sdk_run \<Rightarrow> response \<times> world \<Rightarrow> (js_value + unit) \<times> response \<times> world" where
  "request_body client sdk s =
     (let (res, w) = s
      in case createMcpServer sdk w of
           (Inl e, w1) \<Rightarrow> (Inl e, res, w1)
         | (Inr mcp, w1) \<Rightarrow>
             (case new_StreamableHTTPServerTransport sdk w1 of
                (Inl e, w2) \<Rightarrow> (Inl e, res, w2)
              | (Inr tr, w2) \<Rightarrow>
                  (case connect sdk of
                     Some e \<Rightarrow> (Inl e, res, w2)
                   | None \<Rightarrow> handleRequest client sdk mcp tr (res, w2))))"

definition request_catch ::
  "js_value \<Rightarrow> response \<times> world \<Rightarrow> (js_value + unit) \<times> response \<times> world" where
  "request_catch err s =
     (let (res, w) = s;
          w1 = logger_debug [LStr ''Error handling request:'', LValue err] w
      in if \<not> headersSent res
         then (case writeHead 500 res of
                 Inl e \<Rightarrow> (Inl e, res, w1)
               | Inr res1 \<Rightarrow> (Inr (), end_response res1, w1))
         else (Inr (), res, w1))"

definition request_handler ::
  "api_session_client \<Rightarrow> sdk_run \<Rightarrow> response \<times> world \<Rightarrow> (js_value + unit) \<times> response \<times> world" where
  "request_handler client sdk s = try_catch (request_body client sdk) request_catch s"

text \<open>
  The requests the server receives, each with the SDK's behaviour on it and its own
  response object, handled one after the other.
\<close>

fun serve ::
  "api_session_client \<Rightarrow> (sdk_run \<times> response) list \<Rightarrow> world
     \<Rightarrow> ((js_value + unit) \<times> response) list \<times> world" where
  "serve client [] w = ([], w)"
| "serve client ((sdk, res) # reqs) w =
     (let (out, res', w1) = request_handler client sdk (res, w);
          (outs, w2) = serve client reqs w1
      in ((out, res') # outs, w2))"

definition refs_of :: "(nat \<times> nat) list \<Rightarrow> nat list" where
  "refs_of ps = map fst ps @ map snd ps"

section \<open>Starting and stopping the server\<close>

function decimal :: "nat \<Rightarrow> string" where
  "decimal n =
     (if n < 10 then [''0123456789'' ! n]
      else decimal (n div 10) @ [''0123456789'' ! (n mod 10)])"
  by pat_completeness auto
termination
  by (relation "measure id") auto

declare decimal.simps [simp del]

text \<open>
  \<^verbatim>\<open>new URL(`http://${host}:${port}`)\<close> for an IPv4 host: the parsed URL has no port when the
  port is the default of the scheme (80 for http), and its path is \<^verbatim>\<open>/\<close>, never empty.
\<close>

record whatwg_url =
  scheme :: string
  host :: string
  port :: "nat option"
  path :: string

definition new_URL_http :: "string \<Rightarrow> nat \<Rightarrow> whatwg_url" where
  "new_URL_http h p =
     \<lparr>scheme = ''http'', host = h, port = (if p = 80 then None else Some p), path = ''/''\<rparr>"

definition URL_toString :: "whatwg_url \<Rightarrow> string" where
  "URL_toString u =
     scheme u @ ''://'' @ host u @
     (case port u of None \<Rightarrow> [] | Some p \<Rightarrow> '':'' @ decimal p) @ path u"

text \<open>
  How the operating system answers the one \<^verbatim>\<open>server.listen\<close> call: the socket is bound to
  a port, or binding fails and the server emits an \<^verbatim>\<open>'error'\<close> event.
\<close>

datatype listen_outcome = Bound nat | BindError js_value

text \<open>
  \<^verbatim>\<open>server.listen(port, host, callback)\<close>: the callback is a listener of \<^verbatim>\<open>'listening'\<close> only.
  The result is \<open>Some ()\<close> when the callback runs. The file registers no \<^verbatim>\<open>'error'\<close>
  listener on the server.
\<close>

definition server_listen ::
  "nat \<Rightarrow> string \<Rightarrow> listen_outcome \<Rightarrow> world \<Rightarrow> unit option \<times> world" where
  "server_listen p h lo w =
     (let w1 = w\<lparr>listen_calls := listen_calls w @ [(p, h)]\<rparr>
      in case lo of
           Bound q \<Rightarrow> (Some (), w1\<lparr>listener := Listening q\<rparr>)
         | BindError e \<Rightarrow> (None, w1\<lparr>unhandled_errors := unhandled_errors w1 @ [e]\<rparr>))"

text \<open>\<^verbatim>\<open>server.address().port\<close>\<close>

definition address_port :: "world \<Rightarrow> nat" where
  "address_port w = (case listener w of Listening q \<Rightarrow> q | _ \<Rightarrow> 0)"

record happy_server =
  url :: string
  toolNames :: "string list"
  stop :: "world \<Rightarrow> world"

text \<open>The fate of the promise an \<^verbatim>\<open>async\<close> function returns.\<close>

datatype 'a async_result = Resolved 'a | Rejected js_value | NeverSettles

definition stop_server :: "api_session_client \<Rightarrow> world \<Rightarrow> world" where
  "stop_server client w =
     (let w1 = logger_debug [LStr (''[happyMCP] server:stop sessionId='' @ sessionId client)] w
      in w1\<lparr>listener := Stopped\<rparr>)"

text \<open>
  Lines 19 to 123. The promise awaited at line 107 has a \<^verbatim>\<open>resolve\<close> and no \<^verbatim>\<open>reject\<close>: it
  settles only when the \<^verbatim>\<open>listen\<close> callback runs.
\<close>

definition startHappyServer ::
  "api_session_client \<Rightarrow> listen_outcome \<Rightarrow> world \<Rightarrow> happy_server async_result \<times> world" where
  "startHappyServer client lo w0 =
     (let w1 = logger_debug [LStr (''[happyMCP] server:start sessionId='' @ sessionId client)] w0;
          w2 = w1\<lparr>listener := Created\<rparr>;
          (called, w3) = server_listen 0 ''127.0.0.1'' lo w2
      in case called of
           None \<Rightarrow> (NeverSettles, w3)
         | Some _ \<Rightarrow>
             (let baseUrl = new_URL_http ''127.0.0.1'' (address_port w3);
                  w4 = logger_debug
                         [LStr (''[happyMCP] server:ready sessionId='' @ sessionId client
                                @ '' url='' @ URL_toString baseUrl)] w3
              in (Resolved \<lparr>url = URL_toString baseUrl,
                            toolNames = [''change_title''],
                            stop = stop_server client\<rparr>, w4)))"

section \<open>Abbreviations used in the statements\<close>

text \<open>The message line 28 builds, and the world after the handler has run.\<close>

definition summary_message :: "world \<Rightarrow> string \<Rightarrow> session_message" where
  "summary_message w t =
     \<lparr>msg_type = ''summary'', summary = ''['' @ os_hostname w @ ''] '' @ t,
      leafUuid = uuid_source w (uuids_drawn w)\<rparr>"

definition after_send :: "world \<Rightarrow> string \<Rightarrow> world" where
  "after_send w t =
     w\<lparr>uuids_drawn := Suc (uuids_drawn w),
       send_calls := send_calls w @ [summary_message w t],
       debug_log := debug_log w @
         [[LStr ''[happyMCP] Changing title to:'', LStr (''['' @ os_hostname w @ ''] '' @ t)]]\<rparr>"

text \<open>
  The outcome of the delivery attempt, in the words of the specification: delivery fails
  when the send raises, at once or after the call has returned.
\<close>

fun delivery_failed :: "js_value + send_return \<Rightarrow> bool" where
  "delivery_failed (Inl e) = True"
| "delivery_failed (Inr Delivered) = False"
| "delivery_failed (Inr (InFlight None)) = False"
| "delivery_failed (Inr (InFlight (Some e))) = True"

text \<open>Lines 93 to 97 complete without a throw.\<close>

definition setup_ok :: "sdk_run \<Rightarrow> bool" where
  "setup_ok sdk =
     (new_McpServer sdk = None \<and> registerTool sdk = None \<and> new_Transport sdk = None
      \<and> connect sdk = None)"

text \<open>The world when line 98 is reached: two objects constructed, the pair recorded.\<close>

definition at_handleRequest :: "world \<Rightarrow> world" where
  "at_handleRequest w =
     w\<lparr>next_ref := Suc (Suc (next_ref w)),
       served := served w @ [(next_ref w, Suc (next_ref w))]\<rparr>"

definition answered_500 :: "response \<Rightarrow> response" where
  "answered_500 res = res\<lparr>statusCode := 500, headersSent := True, writableEnded := True\<rparr>"

definition refs_fresh :: "world \<Rightarrow> bool" where
  "refs_fresh w =
     (list_all (\<lambda>r. r < next_ref w) (refs_of (served w)) \<and> distinct (refs_of (served w)))"

definition resolved_url :: "happy_server async_result \<Rightarrow> string option" where
  "resolved_url r = (case r of Resolved h \<Rightarrow> Some (url h) | _ \<Rightarrow> None)"

text \<open>
  The messages the session client receives while the dispatched invocations run, one for
  each execution of the tool body.
\<close>

fun tool_messages :: "api_session_client \<Rightarrow> tool_args list \<Rightarrow> world \<Rightarrow> session_message list" where
  "tool_messages client [] w = []"
| "tool_messages client (a # as) w =
     summary_message w (title a) # tool_messages client as (snd (change_title client a w))"

section \<open>Concrete runs\<close>

definition demo_uuid :: "nat \<Rightarrow> string" where
  "demo_uuid n = ''uuid-'' @ decimal n"

definition demo_world :: world where
  "demo_world =
     \<lparr>os_hostname = ''myhost'', uuid_source = demo_uuid, uuids_drawn = 0, send_calls = [],
      debug_log = [], next_ref = 0, served = [], listen_calls = [], listener = Created,
      unhandled_errors = []\<rparr>"

definition always :: "js_value + send_return \<Rightarrow> session_message \<Rightarrow> js_value + send_return" where
  "always r m = r"

definition demo_client :: api_session_client where
  "demo_client = \<lparr>sessionId = ''s1'', sendClaudeSessionMessage = always (Inr Delivered)\<rparr>"

definition throwing_client :: api_session_client where
  "throwing_client =
     \<lparr>sessionId = ''s1'',
      sendClaudeSessionMessage = always (Inl (JError ''Error'' ''socket closed''))\<rparr>"

definition empty_throw_client :: api_session_client where
  "empty_throw_client =
     \<lparr>sessionId = ''s1'', sendClaudeSessionMessage = always (Inl (JString []))\<rparr>"

definition lagging_client :: api_session_client where
  "lagging_client =
     \<lparr>sessionId = ''s1'',
      sendClaudeSessionMessage =
        always (Inr (InFlight (Some (JError ''Error'' ''socket closed''))))\<rparr>"

definition respond_ok ::
  "(js_value + call_tool_result) list \<Rightarrow> response \<Rightarrow> (js_value + unit) \<times> response" where
  "respond_ok rs res =
     (Inr (),
      res\<lparr>headersSent := True, statusCode := 200, body := ''ok'', writableEnded := True\<rparr>)"

definition respond_throws ::
  "(js_value + call_tool_result) list \<Rightarrow> response \<Rightarrow> (js_value + unit) \<times> response" where
  "respond_throws rs res = (Inl (JError ''Error'' ''stream closed''), res)"

definition demo_sdk :: sdk_run where
  "demo_sdk =
     \<lparr>new_McpServer = None, registerTool = None, new_Transport = None, connect = None,
      tool_calls = [\<lparr>title = ''Refactor plan''\<rparr>], respond = respond_ok\<rparr>"

definition broken_sdk :: sdk_run where
  "broken_sdk = demo_sdk\<lparr>new_Transport := Some (JError ''TypeError'' ''bad options'')\<rparr>"

definition throwing_sdk :: sdk_run where
  "throwing_sdk = demo_sdk\<lparr>respond := respond_throws\<rparr>"

section \<open>The handler and the tool, as equations\<close>

lemma handler_eq:
  "handler client t w =
     (case sendClaudeSessionMessage client (summary_message w t) of
        Inl e \<Rightarrow> (Inr \<lparr>success = False, error = Some (js_String e)\<rparr>, after_send w t)
      | Inr _ \<Rightarrow> (Inr \<lparr>success = True, error = None\<rparr>, after_send w t))"
  by (simp add: handler_def hostname_def prefixed_def logger_debug_def try_catch_def
      randomUUID_def client_send_def Let_def summary_message_def after_send_def
      split: sum.splits)

lemma change_title_eq:
  "change_title client args w =
     (case sendClaudeSessionMessage client (summary_message w (title args)) of
        Inl e \<Rightarrow>
          (Inr \<lparr>content = [\<lparr>block_type = ''text'',
                            block_text = failure_text (Some (js_String e))\<rparr>],
                isError = True\<rparr>,
           logger_debug [LStr ''[happyMCP] Response:'',
                         LResponse \<lparr>success = False, error = Some (js_String e)\<rparr>]
             (after_send w (title args)))
      | Inr _ \<Rightarrow>
          (Inr \<lparr>content = [\<lparr>block_type = ''text'', block_text = success_text (title args)\<rparr>],
                isError = False\<rparr>,
           logger_debug [LStr ''[happyMCP] Response:'',
                         LResponse \<lparr>success = True, error = None\<rparr>]
             (after_send w (title args))))"
  by (simp add: change_title_def handler_eq split: sum.splits)

lemma send_calls_logger_debug: "send_calls (logger_debug a w) = send_calls w"
  by (simp add: logger_debug_def)

lemma uuids_drawn_logger_debug: "uuids_drawn (logger_debug a w) = uuids_drawn w"
  by (simp add: logger_debug_def)

lemma logger_debug_frame:
  "served (logger_debug a w) = served w \<and> next_ref (logger_debug a w) = next_ref w"
  by (simp add: logger_debug_def)

lemma change_title_frame:
  "served (snd (change_title client a w)) = served w
   \<and> next_ref (snd (change_title client a w)) = next_ref w"
  by (simp add: change_title_eq after_send_def logger_debug_def split: sum.splits)

lemma run_tool_calls_frame:
  "served (snd (run_tool_calls client as w)) = served w
   \<and> next_ref (snd (run_tool_calls client as w)) = next_ref w"
proof (induction as arbitrary: w)
  case Nil
  show ?case by simp
next
  case (Cons a as)
  show ?case
    using Cons.IH [of "snd (change_title client a w)"] change_title_frame [of client a w]
    by (simp add: split_beta Let_def)
qed

section \<open>The request handler, step by step\<close>

lemma request_catch_eq:
  "request_catch err (res, w) =
     (Inr (),
      (if headersSent res then res
       else res\<lparr>statusCode := 500, headersSent := True, writableEnded := True\<rparr>),
      logger_debug [LStr ''Error handling request:'', LValue err] w)"
  by (simp add: request_catch_def writeHead_def end_response_def Let_def)

lemma request_handler_returns: "fst (request_handler client sdk s) = Inr ()"
proof -
  obtain out res w where b: "request_body client sdk s = (out, res, w)"
    by (metis prod_cases3)
  show ?thesis
  proof (cases out)
    case (Inl e)
    with b show ?thesis
      by (simp add: request_handler_def try_catch_def request_catch_eq)
  next
    case (Inr u)
    with b show ?thesis
      by (simp add: request_handler_def try_catch_def)
  qed
qed

lemma request_body_ok:
  assumes "setup_ok sdk"
  shows "request_body client sdk (res, w) =
           (fst (respond sdk (fst (run_tool_calls client (tool_calls sdk) (at_handleRequest w))) res),
            snd (respond sdk (fst (run_tool_calls client (tool_calls sdk) (at_handleRequest w))) res),
            snd (run_tool_calls client (tool_calls sdk) (at_handleRequest w)))"
  using assms
  by (simp add: setup_ok_def request_body_def createMcpServer_def new_object_def
      new_StreamableHTTPServerTransport_def handleRequest_def at_handleRequest_def
      Let_def split_beta)

lemma request_body_setup_fails:
  assumes "\<not> setup_ok sdk"
  shows "\<exists>e w1. request_body client sdk (res, w) = (Inl e, res, w1)
           \<and> served w1 = served w \<and> next_ref w \<le> next_ref w1 \<and> send_calls w1 = send_calls w"
  using assms
  by (auto simp add: setup_ok_def request_body_def createMcpServer_def new_object_def
      new_StreamableHTTPServerTransport_def Let_def split: option.splits)

lemma request_handler_setup_fails:
  assumes "\<not> setup_ok sdk"
  shows "fst (snd (request_handler client sdk (res, w))) =
           (if headersSent res then res else answered_500 res)"
proof -
  from request_body_setup_fails [OF assms]
  obtain e w1 where "request_body client sdk (res, w) = (Inl e, res, w1)" by blast
  then show ?thesis
    by (simp add: request_handler_def try_catch_def request_catch_eq answered_500_def)
qed

lemma request_handler_transport_throws:
  assumes "setup_ok sdk"
    and "respond sdk (fst (run_tool_calls client (tool_calls sdk) (at_handleRequest w))) res
           = (Inl e, res1)"
  shows "fst (snd (request_handler client sdk (res, w))) =
           (if headersSent res1 then res1 else answered_500 res1)"
  using assms(2)
  by (simp add: request_handler_def try_catch_def request_body_ok [OF assms(1)]
      request_catch_eq answered_500_def)

lemma request_handler_served:
  "served (snd (snd (request_handler client sdk (res, w)))) =
     (if setup_ok sdk then served w @ [(next_ref w, Suc (next_ref w))] else served w)
   \<and> next_ref w \<le> next_ref (snd (snd (request_handler client sdk (res, w))))
   \<and> (setup_ok sdk \<longrightarrow>
        next_ref (snd (snd (request_handler client sdk (res, w)))) = Suc (Suc (next_ref w)))"
proof (cases "setup_ok sdk")
  case True
  let ?rs = "run_tool_calls client (tool_calls sdk) (at_handleRequest w)"
  have f: "served (snd ?rs) = served (at_handleRequest w)
           \<and> next_ref (snd ?rs) = next_ref (at_handleRequest w)"
    by (rule run_tool_calls_frame)
  show ?thesis
  proof (cases "fst (respond sdk (fst ?rs) res)")
    case (Inl e)
    then show ?thesis
      using True f
      by (simp add: request_handler_def try_catch_def request_body_ok request_catch_eq
          logger_debug_frame at_handleRequest_def split_beta)
  next
    case (Inr u)
    then show ?thesis
      using True f
      by (simp add: request_handler_def try_catch_def request_body_ok at_handleRequest_def)
  qed
next
  case False
  from request_body_setup_fails [OF False]
  obtain e w1 where b: "request_body client sdk (res, w) = (Inl e, res, w1)"
    and s: "served w1 = served w" and n: "next_ref w \<le> next_ref w1" by blast
  show ?thesis
    using False b s n
    by (simp add: request_handler_def try_catch_def request_catch_eq logger_debug_frame)
qed

lemma change_title_send_calls:
  "send_calls (snd (change_title client a w)) = send_calls w @ [summary_message w (title a)]"
  by (simp add: change_title_eq after_send_def send_calls_logger_debug split: sum.splits)

lemma length_tool_messages: "length (tool_messages client as w) = length as"
  by (induction as arbitrary: w) simp_all

lemma run_tool_calls_send_calls:
  "send_calls (snd (run_tool_calls client as w)) = send_calls w @ tool_messages client as w"
proof (induction as arbitrary: w)
  case Nil
  show ?case by simp
next
  case (Cons a as)
  show ?case
    using Cons.IH [of "snd (change_title client a w)"] change_title_send_calls [of client a w]
    by (simp add: split_beta Let_def)
qed

lemma request_handler_send_calls:
  "send_calls (snd (snd (request_handler client sdk (res, w)))) =
     send_calls w @
       (if setup_ok sdk then tool_messages client (tool_calls sdk) (at_handleRequest w) else [])"
proof (cases "setup_ok sdk")
  case True
  let ?rs = "run_tool_calls client (tool_calls sdk) (at_handleRequest w)"
  have f: "send_calls (snd ?rs) =
             send_calls w @ tool_messages client (tool_calls sdk) (at_handleRequest w)"
    using run_tool_calls_send_calls [of client "tool_calls sdk" "at_handleRequest w"]
    by (simp add: at_handleRequest_def)
  show ?thesis
  proof (cases "fst (respond sdk (fst ?rs) res)")
    case (Inl e)
    then show ?thesis
      using True f
      by (simp add: request_handler_def try_catch_def request_body_ok request_catch_eq
          send_calls_logger_debug split_beta)
  next
    case (Inr u)
    then show ?thesis
      using True f
      by (simp add: request_handler_def try_catch_def request_body_ok)
  qed
next
  case False
  from request_body_setup_fails [OF False]
  obtain e w1 where b: "request_body client sdk (res, w) = (Inl e, res, w1)"
    and s: "send_calls w1 = send_calls w" by blast
  show ?thesis
    using False b s
    by (simp add: request_handler_def try_catch_def request_catch_eq send_calls_logger_debug)
qed

section \<open>References stay fresh while requests are served\<close>

lemma refs_of_snoc: "set (refs_of (ps @ [(m, t)])) = insert m (insert t (set (refs_of ps)))"
  by (auto simp add: refs_of_def)

lemma distinct_refs_of_snoc:
  "distinct (refs_of (ps @ [(m, t)])) \<longleftrightarrow>
     distinct (refs_of ps) \<and> m \<noteq> t \<and> m \<notin> set (refs_of ps) \<and> t \<notin> set (refs_of ps)"
  by (auto simp add: refs_of_def)

lemma request_handler_refs_fresh:
  assumes "refs_fresh w"
  shows "refs_fresh (snd (snd (request_handler client sdk (res, w))))"
proof -
  let ?w = "snd (snd (request_handler client sdk (res, w)))"
  note h = request_handler_served [of client sdk res w]
  from assms have b: "\<forall>r \<in> set (refs_of (served w)). r < next_ref w"
    and d: "distinct (refs_of (served w))"
    by (simp_all add: refs_fresh_def list_all_iff)
  show ?thesis
  proof (cases "setup_ok sdk")
    case True
    with h have s: "served ?w = served w @ [(next_ref w, Suc (next_ref w))]"
      and n: "next_ref ?w = Suc (Suc (next_ref w))" by simp_all
    from b have "next_ref w \<notin> set (refs_of (served w))"
      "Suc (next_ref w) \<notin> set (refs_of (served w))" by auto
    with b d show ?thesis
      by (auto simp add: refs_fresh_def list_all_iff s n refs_of_snoc distinct_refs_of_snoc)
  next
    case False
    with h have s: "served ?w = served w" and n: "next_ref w \<le> next_ref ?w" by simp_all
    with b d show ?thesis
      by (fastforce simp add: refs_fresh_def list_all_iff)
  qed
qed

lemma serve_refs_fresh:
  "refs_fresh w \<Longrightarrow> refs_fresh (snd (serve client reqs w))"
proof (induction reqs arbitrary: w)
  case Nil
  then show ?case by simp
next
  case (Cons rq reqs)
  obtain sdk res where rq: "rq = (sdk, res)" by (cases rq)
  have "refs_fresh (snd (snd (request_handler client sdk (res, w))))"
    using Cons.prems by (rule request_handler_refs_fresh)
  from Cons.IH [OF this] show ?case
    by (simp add: rq split_beta Let_def)
qed

lemma serve_served_length:
  "length (served (snd (serve client reqs w))) =
     length (served w) + length (filter (\<lambda>rq. setup_ok (fst rq)) reqs)"
proof (induction reqs arbitrary: w)
  case Nil
  then show ?case by simp
next
  case (Cons rq reqs)
  obtain sdk res where rq: "rq = (sdk, res)" by (cases rq)
  show ?case
    using Cons.IH [of "snd (snd (request_handler client sdk (res, w)))"]
      request_handler_served [of client sdk res w]
    by (simp add: rq split_beta Let_def)
qed

section \<open>Starting the server, as equations\<close>

lemma start_bound:
  "startHappyServer client (Bound p) w =
     (Resolved \<lparr>url = URL_toString (new_URL_http ''127.0.0.1'' p),
                toolNames = [''change_title''],
                stop = stop_server client\<rparr>,
      w\<lparr>debug_log := debug_log w @
           [[LStr (''[happyMCP] server:start sessionId='' @ sessionId client)],
            [LStr (''[happyMCP] server:ready sessionId='' @ sessionId client @ '' url=''
                   @ URL_toString (new_URL_http ''127.0.0.1'' p))]],
        listen_calls := listen_calls w @ [(0, ''127.0.0.1'')],
        listener := Listening p\<rparr>)"
  by (simp add: startHappyServer_def server_listen_def logger_debug_def address_port_def Let_def)

lemma start_bind_error:
  "startHappyServer client (BindError e) w =
     (NeverSettles,
      w\<lparr>debug_log := debug_log w @
           [[LStr (''[happyMCP] server:start sessionId='' @ sessionId client)]],
        listen_calls := listen_calls w @ [(0, ''127.0.0.1'')],
        listener := Created,
        unhandled_errors := unhandled_errors w @ [e]\<rparr>)"
  by (simp add: startHappyServer_def server_listen_def logger_debug_def Let_def)

lemma loopback_url:
  "URL_toString (new_URL_http ''127.0.0.1'' p) =
     (if p = 80 then ''http://127.0.0.1/'' else ''http://127.0.0.1:'' @ decimal p @ ''/'')"
  by (simp add: URL_toString_def new_URL_http_def)

lemma decimal_nonempty: "decimal n \<noteq> []"
  by (subst decimal.simps) simp

lemma digit_zero:
  assumes "n < 10"
  shows "(''0123456789'' ! n = CHR ''0'') = (n = 0)"
proof (cases n)
  case 0
  then show ?thesis by simp
next
  case (Suc m)
  with assms have "m < length ''123456789''" by simp
  then have "''123456789'' ! m \<in> set ''123456789''" by (rule nth_mem)
  then have "''123456789'' ! m \<noteq> CHR ''0''" by auto
  with Suc show ?thesis by simp
qed

lemma decimal_zero: "(decimal n = ''0'') = (n = 0)"
proof (cases "n < 10")
  case True
  then show ?thesis
    by (subst decimal.simps) (simp add: digit_zero)
next
  case False
  have "decimal (n div 10) \<noteq> []" by (rule decimal_nonempty)
  with False show ?thesis
    by (subst decimal.simps) (auto simp add: append_eq_Cons_conv)
qed

lemma stop_server_reads_sessionId:
  "sessionId c1 = sessionId c2 \<Longrightarrow> stop_server c1 = stop_server c2"
  by (rule ext) (simp add: stop_server_def)

section \<open>The change_title tool\<close>

text \<open>
  C1. Whenever the client's send returns for the summary message, the tool returns one text
  block reading \<^verbatim>\<open>Successfully changed chat title to: "<title>"\<close> with the caller's title
  as given, the error flag is false, and the client receives exactly one more message: of
  type summary, with summary \<^verbatim>\<open>[<hostname>] <title>\<close> and as leafUuid the UUID drawn from
  the generator during this call (one UUID is drawn).
\<close>

theorem change_title_success:
  assumes "sendClaudeSessionMessage client
             \<lparr>msg_type = ''summary'', summary = ''['' @ os_hostname w @ ''] '' @ t,
              leafUuid = uuid_source w (uuids_drawn w)\<rparr> = Inr r"
  shows \<open>fst (change_title client \<lparr>title = t\<rparr> w) =
           Inr \<lparr>content = [\<lparr>block_type = ''text'',
                             block_text = ''Successfully changed chat title to: "'' @ t @ ''"''\<rparr>],
                isError = False\<rparr>
         \<and> send_calls (snd (change_title client \<lparr>title = t\<rparr> w)) =
             send_calls w @ [\<lparr>msg_type = ''summary'', summary = ''['' @ os_hostname w @ ''] '' @ t,
                              leafUuid = uuid_source w (uuids_drawn w)\<rparr>]
         \<and> uuids_drawn (snd (change_title client \<lparr>title = t\<rparr> w)) = Suc (uuids_drawn w)\<close>
  using assms
  by (simp add: change_title_eq summary_message_def success_text_def after_send_def
      send_calls_logger_debug uuids_drawn_logger_debug)

theorem change_title_success_witness:
  \<open>sendClaudeSessionMessage demo_client
      \<lparr>msg_type = ''summary'',
       summary = ''['' @ os_hostname demo_world @ ''] '' @ ''Refactor plan'',
       leafUuid = uuid_source demo_world (uuids_drawn demo_world)\<rparr> = Inr Delivered
   \<and> fst (change_title demo_client \<lparr>title = ''Refactor plan''\<rparr> demo_world) =
           Inr \<lparr>content = [\<lparr>block_type = ''text'',
                             block_text = ''Successfully changed chat title to: "Refactor plan"''\<rparr>],
                isError = False\<rparr>
   \<and> send_calls (snd (change_title demo_client \<lparr>title = ''Refactor plan''\<rparr> demo_world)) =
        [\<lparr>msg_type = ''summary'', summary = ''[myhost] Refactor plan'', leafUuid = ''uuid-0''\<rparr>]\<close>
proof -
  have h: "sendClaudeSessionMessage demo_client
      \<lparr>msg_type = ''summary'',
       summary = ''['' @ os_hostname demo_world @ ''] '' @ ''Refactor plan'',
       leafUuid = uuid_source demo_world (uuids_drawn demo_world)\<rparr> = Inr Delivered"
    by (simp add: demo_client_def always_def)
  show ?thesis
    using h change_title_success [OF h]
    by (simp add: demo_world_def demo_uuid_def decimal.simps)
qed

text \<open>
  C2. Whenever the client's send throws \<open>e\<close>, the tool returns normally, with one text block
  reading \<^verbatim>\<open>Failed to change chat title: <reason>\<close> and the error flag true; the reason is
  \<^verbatim>\<open>String(e)\<close>, or \<^verbatim>\<open>Unknown error\<close> when that is empty. The request handler returns
  normally too, whatever the transport does with the request.
\<close>

theorem change_title_failure:
  assumes "sendClaudeSessionMessage client
             \<lparr>msg_type = ''summary'', summary = ''['' @ os_hostname w @ ''] '' @ t,
              leafUuid = uuid_source w (uuids_drawn w)\<rparr> = Inl e"
  shows "fst (change_title client \<lparr>title = t\<rparr> w) =
           Inr \<lparr>content = [\<lparr>block_type = ''text'',
                             block_text = ''Failed to change chat title: '' @
                               (if js_String e = [] then ''Unknown error'' else js_String e)\<rparr>],
                isError = True\<rparr>
         \<and> fst (request_handler client sdk (res, w)) = Inr ()"
  using assms
  by (simp add: change_title_eq summary_message_def failure_text_def request_handler_returns)

theorem change_title_failure_witness:
  "sendClaudeSessionMessage throwing_client
      \<lparr>msg_type = ''summary'',
       summary = ''['' @ os_hostname demo_world @ ''] '' @ ''Refactor plan'',
       leafUuid = uuid_source demo_world (uuids_drawn demo_world)\<rparr>
     = Inl (JError ''Error'' ''socket closed'')
   \<and> fst (change_title throwing_client \<lparr>title = ''Refactor plan''\<rparr> demo_world) =
           Inr \<lparr>content = [\<lparr>block_type = ''text'',
                             block_text = ''Failed to change chat title: Error: socket closed''\<rparr>],
                isError = True\<rparr>
   \<and> fst (request_handler throwing_client demo_sdk (fresh_response, demo_world)) = Inr ()"
proof -
  have h: "sendClaudeSessionMessage throwing_client
      \<lparr>msg_type = ''summary'',
       summary = ''['' @ os_hostname demo_world @ ''] '' @ ''Refactor plan'',
       leafUuid = uuid_source demo_world (uuids_drawn demo_world)\<rparr>
     = Inl (JError ''Error'' ''socket closed'')"
    by (simp add: throwing_client_def always_def)
  show ?thesis
    using h change_title_failure [OF h, of demo_sdk fresh_response]
    by simp
qed

text \<open>
  C9. On the failure path the handler's record always carries an error string, the
  \<^verbatim>\<open>String(...)\<close> conversion of the thrown value; the text after
  \<^verbatim>\<open>Failed to change chat title: \<close> is that string, and \<^verbatim>\<open>Unknown error\<close> exactly when the
  conversion is empty. A thrown Error object with message \<open>m\<close> converts to
  \<^verbatim>\<open>Error: m\<close> (to \<^verbatim>\<open>Error\<close> alone when \<open>m\<close> is empty), not to the bare message.
\<close>

theorem failure_reason_is_String_of_thrown:
  assumes "sendClaudeSessionMessage client (summary_message w t) = Inl e"
  shows "fst (handler client t w) = Inr \<lparr>success = False, error = Some (js_String e)\<rparr>
         \<and> fst (change_title client \<lparr>title = t\<rparr> w) =
             Inr \<lparr>content = [\<lparr>block_type = ''text'',
                               block_text = ''Failed to change chat title: '' @
                                 (if js_String e = [] then ''Unknown error'' else js_String e)\<rparr>],
                  isError = True\<rparr>
         \<and> (\<forall>m. e = JError ''Error'' m \<longrightarrow>
               js_String e = (if m = [] then ''Error'' else ''Error: '' @ m))"
  using assms
  by (simp add: handler_eq change_title_eq failure_text_def)

theorem failure_reason_is_String_of_thrown_witness:
  "fst (handler throwing_client ''Refactor plan'' demo_world) =
     Inr \<lparr>success = False, error = Some ''Error: socket closed''\<rparr>
   \<and> fst (change_title throwing_client \<lparr>title = ''Refactor plan''\<rparr> demo_world) =
       Inr \<lparr>content = [\<lparr>block_type = ''text'',
                         block_text = ''Failed to change chat title: Error: socket closed''\<rparr>],
            isError = True\<rparr>
   \<and> fst (handler empty_throw_client ''Refactor plan'' demo_world) =
       Inr \<lparr>success = False, error = Some []\<rparr>
   \<and> fst (change_title empty_throw_client \<lparr>title = ''Refactor plan''\<rparr> demo_world) =
       Inr \<lparr>content = [\<lparr>block_type = ''text'',
                         block_text = ''Failed to change chat title: Unknown error''\<rparr>],
            isError = True\<rparr>"
proof -
  have h1: "sendClaudeSessionMessage throwing_client (summary_message demo_world ''Refactor plan'')
              = Inl (JError ''Error'' ''socket closed'')"
    by (simp add: throwing_client_def always_def)
  have h2: "sendClaudeSessionMessage empty_throw_client (summary_message demo_world ''Refactor plan'')
              = Inl (JString [])"
    by (simp add: empty_throw_client_def always_def)
  show ?thesis
    using failure_reason_is_String_of_thrown [OF h1] failure_reason_is_String_of_thrown [OF h2]
    by simp
qed

text \<open>
  C3 as stated fails: a send that returns while delivery is still in flight, and whose
  delivery then fails, is reported as a success.
\<close>

theorem result_ignores_late_failure_counterexample:
  \<open>delivery_failed
      (sendClaudeSessionMessage lagging_client (summary_message demo_world ''Refactor plan''))
   \<and> fst (change_title lagging_client \<lparr>title = ''Refactor plan''\<rparr> demo_world) =
       Inr \<lparr>content = [\<lparr>block_type = ''text'',
                         block_text = ''Successfully changed chat title to: "Refactor plan"''\<rparr>],
            isError = False\<rparr>\<close>
  by (simp add: change_title_eq lagging_client_def always_def success_text_def)

text \<open>
  C3, amended. The tool returns after the one call of the client's send has returned or
  thrown, and its error flag says whether that call threw: what happens to the delivery
  after the call has returned is not waited for and does not reach the result.
\<close>

theorem result_reflects_synchronous_outcome:
  "\<exists>r. fst (change_title client \<lparr>title = t\<rparr> w) = Inr r
       \<and> isError r = isl (sendClaudeSessionMessage client (summary_message w t))
       \<and> send_calls (snd (change_title client \<lparr>title = t\<rparr> w)) =
           send_calls w @ [summary_message w t]"
  by (cases "sendClaudeSessionMessage client (summary_message w t)")
     (simp_all add: change_title_eq after_send_def send_calls_logger_debug)

section \<open>The request handler\<close>

text \<open>
  C4. The request handler never throws. When constructing the registry, constructing the
  transport or connecting them throws and the headers of the response are not sent yet, the
  response is ended with status 500 and nothing written to its body; the same when the
  transport's request processing throws and leaves the headers unsent.
\<close>

theorem request_errors_are_caught:
  "fst (request_handler client sdk (res, w)) = Inr ()
   \<and> (\<not> setup_ok sdk \<and> \<not> headersSent res \<longrightarrow>
        fst (snd (request_handler client sdk (res, w))) =
          res\<lparr>statusCode := 500, headersSent := True, writableEnded := True\<rparr>)
   \<and> (setup_ok sdk
        \<and> respond sdk (fst (run_tool_calls client (tool_calls sdk) (at_handleRequest w))) res
            = (Inl e, res1)
        \<and> \<not> headersSent res1 \<longrightarrow>
        fst (snd (request_handler client sdk (res, w))) =
          res1\<lparr>statusCode := 500, headersSent := True, writableEnded := True\<rparr>)"
  using request_handler_returns [of client sdk "(res, w)"]
    request_handler_setup_fails [of sdk client res w]
    request_handler_transport_throws [of sdk client w res e res1]
  by (simp add: answered_500_def)

theorem request_errors_are_caught_witness:
  "\<not> setup_ok broken_sdk \<and> \<not> headersSent fresh_response
   \<and> fst (request_handler demo_client broken_sdk (fresh_response, demo_world)) = Inr ()
   \<and> fst (snd (request_handler demo_client broken_sdk (fresh_response, demo_world))) =
       \<lparr>headersSent = True, statusCode = 500, body = [], writableEnded = True\<rparr>
   \<and> setup_ok throwing_sdk
   \<and> respond throwing_sdk
        (fst (run_tool_calls demo_client (tool_calls throwing_sdk) (at_handleRequest demo_world)))
        fresh_response = (Inl (JError ''Error'' ''stream closed''), fresh_response)
   \<and> fst (request_handler demo_client throwing_sdk (fresh_response, demo_world)) = Inr ()
   \<and> fst (snd (request_handler demo_client throwing_sdk (fresh_response, demo_world))) =
       \<lparr>headersSent = True, statusCode = 500, body = [], writableEnded = True\<rparr>"
proof -
  have a: "\<not> setup_ok broken_sdk \<and> setup_ok throwing_sdk"
    by (simp add: setup_ok_def broken_sdk_def throwing_sdk_def demo_sdk_def)
  have b: "respond throwing_sdk
        (fst (run_tool_calls demo_client (tool_calls throwing_sdk) (at_handleRequest demo_world)))
        fresh_response = (Inl (JError ''Error'' ''stream closed''), fresh_response)"
    by (simp add: throwing_sdk_def respond_throws_def)
  have c: "\<not> headersSent fresh_response"
    by (simp add: fresh_response_def)
  show ?thesis
    using a b c
      request_errors_are_caught [of demo_client broken_sdk fresh_response demo_world]
      request_errors_are_caught [of demo_client throwing_sdk fresh_response demo_world
        "JError ''Error'' ''stream closed''" fresh_response]
    by (simp add: fresh_response_def)
qed

text \<open>
  C5. While the server handles any sequence of requests, every request that reaches the
  transport is served by a registry and a transport constructed for it: the references of
  all the registries and transports that served a request are pairwise distinct, and there
  is one such pair for each request whose construction steps did not throw.
\<close>

theorem fresh_registry_and_transport_per_request:
  assumes "served w = []"
  shows "distinct (refs_of (served (snd (serve client reqs w))))
         \<and> length (served (snd (serve client reqs w))) =
             length (filter (\<lambda>rq. setup_ok (fst rq)) reqs)"
proof -
  have "refs_fresh w"
    using assms by (simp add: refs_fresh_def refs_of_def)
  then have "refs_fresh (snd (serve client reqs w))"
    by (rule serve_refs_fresh)
  then show ?thesis
    using serve_served_length [of client reqs w] assms
    by (simp add: refs_fresh_def)
qed

theorem fresh_registry_and_transport_per_request_witness:
  "served demo_world = []
   \<and> served (snd (serve demo_client
        [(demo_sdk, fresh_response), (broken_sdk, fresh_response), (demo_sdk, fresh_response)]
        demo_world)) = [(0, 1), (3, 4)]
   \<and> distinct (refs_of (served (snd (serve demo_client
        [(demo_sdk, fresh_response), (broken_sdk, fresh_response), (demo_sdk, fresh_response)]
        demo_world))))"
proof -
  let ?w1 = "snd (snd (request_handler demo_client demo_sdk (fresh_response, demo_world)))"
  let ?w2 = "snd (snd (request_handler demo_client broken_sdk (fresh_response, ?w1)))"
  have h: "served demo_world = []"
    by (simp add: demo_world_def)
  have ok: "setup_ok demo_sdk \<and> \<not> setup_ok broken_sdk"
    by (simp add: setup_ok_def broken_sdk_def demo_sdk_def)
  have n0: "next_ref demo_world = 0"
    by (simp add: demo_world_def)
  have w1: "served ?w1 = [(0, 1)] \<and> next_ref ?w1 = 2"
    using request_handler_served [of demo_client demo_sdk fresh_response demo_world] ok h n0
    by simp
  have w2: "served ?w2 = [(0, 1)] \<and> next_ref ?w2 = 3"
    using w1 ok
    by (simp add: request_handler_def try_catch_def request_body_def createMcpServer_def
        new_object_def new_StreamableHTTPServerTransport_def broken_sdk_def demo_sdk_def
        request_catch_eq logger_debug_def Let_def split_beta)
  have s: "served (snd (serve demo_client
        [(demo_sdk, fresh_response), (broken_sdk, fresh_response), (demo_sdk, fresh_response)]
        demo_world)) = [(0, 1), (3, 4)]"
    using request_handler_served [of demo_client demo_sdk fresh_response ?w2] ok w2
    by (simp add: split_beta Let_def)
  show ?thesis
    using h s fresh_registry_and_transport_per_request [OF h, of demo_client
        "[(demo_sdk, fresh_response), (broken_sdk, fresh_response), (demo_sdk, fresh_response)]"]
    by simp
qed

section \<open>Start and stop\<close>

text \<open>
  C6 as stated fails: when binding fails, the promise that start awaits is never settled
  (it has no reject path, and the listen callback never runs), so start does not reject
  with the bind error.
\<close>

theorem bind_error_never_settles_counterexample:
  "fst (startHappyServer demo_client (BindError (JError ''Error'' ''listen EMFILE'')) demo_world)
     = NeverSettles
   \<and> fst (startHappyServer demo_client (BindError (JError ''Error'' ''listen EMFILE'')) demo_world)
     \<noteq> Rejected (JError ''Error'' ''listen EMFILE'')"
  by (simp add: start_bind_error)

text \<open>
  C6, amended. When binding fails, start neither catches the failure nor retries: listen is
  called once, on port 0 of the loopback address, the bind error stays an \<^verbatim>\<open>'error'\<close> event
  of the server that nothing handles, the socket is not listening, and the promise start
  returns is never settled.
\<close>

theorem bind_error_is_unhandled:
  "fst (startHappyServer client (BindError e) w) = NeverSettles
   \<and> unhandled_errors (snd (startHappyServer client (BindError e) w)) = unhandled_errors w @ [e]
   \<and> listen_calls (snd (startHappyServer client (BindError e) w)) =
       listen_calls w @ [(0, ''127.0.0.1'')]
   \<and> listener (snd (startHappyServer client (BindError e) w)) = Created"
  by (simp add: start_bind_error)

text \<open>
  C7 as stated fails: the resolved url is the serialisation of a URL object, which ends
  with a slash.
\<close>

theorem url_has_trailing_slash_counterexample:
  "resolved_url (fst (startHappyServer demo_client (Bound 3000) demo_world)) =
     Some ''http://127.0.0.1:3000/''
   \<and> resolved_url (fst (startHappyServer demo_client (Bound 3000) demo_world)) \<noteq>
     Some ''http://127.0.0.1:3000''"
  by (simp add: start_bound loopback_url resolved_url_def decimal.simps)

text \<open>
  C7, amended. start resolves when the listener is bound, and only then; the resolved url
  is \<^verbatim>\<open>http://127.0.0.1:<port>/\<close>, with a trailing slash, where \<^verbatim>\<open><port>\<close> is the decimal
  form of the port of the bound listener (never \<^verbatim>\<open>0\<close> for a nonzero port), and
  \<^verbatim>\<open>http://127.0.0.1/\<close> when that port is 80.
\<close>

theorem start_resolves_with_loopback_url:
  "resolved_url (fst (startHappyServer client (Bound p) w)) =
     Some (if p = 80 then ''http://127.0.0.1/'' else ''http://127.0.0.1:'' @ decimal p @ ''/'')
   \<and> listener (snd (startHappyServer client (Bound p) w)) = Listening p
   \<and> (decimal p = ''0'') = (p = 0)
   \<and> (\<forall>lo h w'. startHappyServer client lo w = (Resolved h, w') \<longrightarrow>
         lo = Bound (address_port w') \<and> listener w' = Listening (address_port w'))"
proof -
  have "lo = Bound (address_port w') \<and> listener w' = Listening (address_port w')"
    if "startHappyServer client lo w = (Resolved h, w')" for lo h w'
    using that
    by (cases lo) (auto simp add: start_bound start_bind_error address_port_def)
  then show ?thesis
    by (simp add: start_bound loopback_url resolved_url_def decimal_zero)
qed

theorem start_resolves_with_loopback_url_witness:
  "resolved_url (fst (startHappyServer demo_client (Bound 49152) demo_world)) =
     Some ''http://127.0.0.1:49152/''
   \<and> listener (snd (startHappyServer demo_client (Bound 49152) demo_world)) = Listening 49152
   \<and> address_port (snd (startHappyServer demo_client (Bound 49152) demo_world)) = 49152"
proof -
  let ?h = "\<lparr>url = URL_toString (new_URL_http ''127.0.0.1'' 49152),
             toolNames = [''change_title''],
             stop = stop_server demo_client\<rparr>"
  let ?w = "snd (startHappyServer demo_client (Bound 49152) demo_world)"
  note t = start_resolves_with_loopback_url [of demo_client 49152 demo_world]
  have f: "fst (startHappyServer demo_client (Bound 49152) demo_world) = Resolved ?h"
    by (simp add: start_bound)
  have h: "startHappyServer demo_client (Bound 49152) demo_world = (Resolved ?h, ?w)"
    by (rule prod_eqI) (simp_all add: f)
  have d: "decimal 49152 = ''49152''"
    by (simp add: decimal.simps)
  from t have u: "resolved_url (fst (startHappyServer demo_client (Bound 49152) demo_world)) =
     Some ''http://127.0.0.1:49152/''"
    by (simp add: d)
  from t have l: "listener ?w = Listening 49152"
    by blast
  from t have "\<forall>lo h w'. startHappyServer demo_client lo demo_world = (Resolved h, w') \<longrightarrow>
         lo = Bound (address_port w') \<and> listener w' = Listening (address_port w')"
    by blast
  with h have "Bound 49152 = Bound (address_port ?w)"
    by blast
  then have p: "address_port ?w = 49152"
    by simp
  from u l p show ?thesis
    by blast
qed

text \<open>
  C8. Whenever start resolves, whatever the session client, the toolNames of the handle
  are the one-element list \<^verbatim>\<open>["change_title"]\<close>.
\<close>

theorem toolNames_is_change_title:
  assumes "startHappyServer client lo w = (Resolved h, w')"
  shows "toolNames h = [''change_title'']"
  using assms by (cases lo) (auto simp add: start_bound start_bind_error)

theorem toolNames_is_change_title_witness:
  "fst (startHappyServer throwing_client (Bound 49152) demo_world) =
     Resolved \<lparr>url = URL_toString (new_URL_http ''127.0.0.1'' 49152),
               toolNames = [''change_title''],
               stop = stop_server throwing_client\<rparr>
   \<and> toolNames \<lparr>url = URL_toString (new_URL_http ''127.0.0.1'' 49152),
                 toolNames = [''change_title''],
                 stop = stop_server throwing_client\<rparr> = [''change_title'']"
proof -
  let ?h = "\<lparr>url = URL_toString (new_URL_http ''127.0.0.1'' 49152),
             toolNames = [''change_title''],
             stop = stop_server throwing_client\<rparr>"
  let ?w = "snd (startHappyServer throwing_client (Bound 49152) demo_world)"
  have f: "fst (startHappyServer throwing_client (Bound 49152) demo_world) = Resolved ?h"
    by (simp add: start_bound)
  have h: "startHappyServer throwing_client (Bound 49152) demo_world = (Resolved ?h, ?w)"
    by (rule prod_eqI) (simp_all add: f)
  from f toolNames_is_change_title [OF h] show ?thesis
    by blast
qed

text \<open>
  C10. The session client's send is called only while the tool body runs. start and stop
  send nothing: the calls the client has received are the same before and after, for every
  outcome of listen, and for the stop of every resolved handle in every world; of the
  client they read the session identifier only, so two clients with the same identifier
  give the same start. The request handler sends nothing of its own either: what the client
  receives while a request is handled is exactly the messages of the tool invocations the
  transport dispatches, one for each execution of the tool body, and nothing when the
  construction steps throw before the transport runs.
\<close>

theorem send_only_inside_tool_body:
  "send_calls (snd (startHappyServer client lo w)) = send_calls w
   \<and> send_calls (stop_server client w) = send_calls w
   \<and> (\<forall>h w2. fst (startHappyServer client lo w) = Resolved h \<longrightarrow>
         send_calls (stop h w2) = send_calls w2)
   \<and> (\<forall>c2. sessionId c2 = sessionId client \<longrightarrow>
         startHappyServer c2 lo w = startHappyServer client lo w)
   \<and> send_calls (snd (snd (request_handler client sdk (res, w)))) =
       send_calls w @
         (if setup_ok sdk then tool_messages client (tool_calls sdk) (at_handleRequest w) else [])
   \<and> length (tool_messages client (tool_calls sdk) (at_handleRequest w)) = length (tool_calls sdk)
   \<and> send_calls (snd (change_title client a w)) = send_calls w @ [summary_message w (title a)]"
proof -
  have a: "send_calls (stop_server client w2) = send_calls w2" for w2
    by (simp add: stop_server_def logger_debug_def)
  have c1: "send_calls (snd (startHappyServer client lo w)) = send_calls w"
    by (cases lo) (simp_all add: start_bound start_bind_error)
  have c3: "send_calls (stop h w2) = send_calls w2"
    if "fst (startHappyServer client lo w) = Resolved h" for h w2
  proof (cases lo)
    case (Bound p)
    with that have "stop h = stop_server client"
      by (auto simp add: start_bound)
    then show ?thesis
      by (simp add: a)
  next
    case (BindError e)
    with that show ?thesis
      by (simp add: start_bind_error)
  qed
  have c4: "startHappyServer c2 lo w = startHappyServer client lo w"
    if "sessionId c2 = sessionId client" for c2
  proof -
    have "stop_server c2 = stop_server client"
      using that by (rule stop_server_reads_sessionId)
    with that show ?thesis
      by (cases lo) (simp_all add: start_bound start_bind_error)
  qed
  note c5 = request_handler_send_calls [of client sdk res w]
  note c6 = length_tool_messages [of client "tool_calls sdk" "at_handleRequest w"]
  note c7 = change_title_send_calls [of client a w]
  from c1 a [of w] c3 c4 c5 c6 c7 show ?thesis
    by blast
qed

theorem send_only_inside_tool_body_witness:
  "fst (startHappyServer demo_client (Bound 49152) demo_world) =
     Resolved \<lparr>url = URL_toString (new_URL_http ''127.0.0.1'' 49152),
               toolNames = [''change_title''],
               stop = stop_server demo_client\<rparr>
   \<and> send_calls (snd (startHappyServer demo_client (Bound 49152) demo_world)) = []
   \<and> send_calls (stop \<lparr>url = URL_toString (new_URL_http ''127.0.0.1'' 49152),
                        toolNames = [''change_title''],
                        stop = stop_server demo_client\<rparr>
                  (snd (startHappyServer demo_client (Bound 49152) demo_world))) = []
   \<and> sessionId throwing_client = sessionId demo_client
   \<and> startHappyServer throwing_client (Bound 49152) demo_world =
       startHappyServer demo_client (Bound 49152) demo_world
   \<and> send_calls (snd (snd (request_handler demo_client demo_sdk (fresh_response, demo_world)))) =
       [\<lparr>msg_type = ''summary'', summary = ''[myhost] Refactor plan'', leafUuid = ''uuid-0''\<rparr>]
   \<and> send_calls (snd (snd (request_handler demo_client broken_sdk (fresh_response, demo_world)))) = []"
proof -
  let ?h = "\<lparr>url = URL_toString (new_URL_http ''127.0.0.1'' 49152),
             toolNames = [''change_title''],
             stop = stop_server demo_client\<rparr>"
  let ?w = "snd (startHappyServer demo_client (Bound 49152) demo_world)"
  note t = send_only_inside_tool_body [of demo_client "Bound 49152" demo_world demo_sdk
      fresh_response "\<lparr>title = ''Refactor plan''\<rparr>"]
  note t2 = send_only_inside_tool_body [of demo_client "Bound 49152" demo_world broken_sdk
      fresh_response "\<lparr>title = ''Refactor plan''\<rparr>"]
  have h: "fst (startHappyServer demo_client (Bound 49152) demo_world) = Resolved ?h"
    by (simp add: start_bound)
  have i: "sessionId throwing_client = sessionId demo_client"
    by (simp add: throwing_client_def demo_client_def)
  have e: "send_calls demo_world = []"
    by (simp add: demo_world_def)
  have ok: "setup_ok demo_sdk \<and> \<not> setup_ok broken_sdk"
    by (simp add: setup_ok_def broken_sdk_def demo_sdk_def)
  have m: "tool_messages demo_client (tool_calls demo_sdk) (at_handleRequest demo_world) =
       [\<lparr>msg_type = ''summary'', summary = ''[myhost] Refactor plan'', leafUuid = ''uuid-0''\<rparr>]"
    by (simp add: demo_sdk_def summary_message_def at_handleRequest_def demo_world_def
        demo_uuid_def decimal.simps)
  from t have "send_calls ?w = send_calls demo_world"
    by blast
  with e have s1: "send_calls ?w = []"
    by simp
  from t h have "send_calls (stop ?h ?w) = send_calls ?w"
    by blast
  with s1 have s2: "send_calls (stop ?h ?w) = []"
    by simp
  from t i have s3: "startHappyServer throwing_client (Bound 49152) demo_world =
       startHappyServer demo_client (Bound 49152) demo_world"
    by blast
  from t have "send_calls (snd (snd (request_handler demo_client demo_sdk (fresh_response, demo_world)))) =
       send_calls demo_world @
         (if setup_ok demo_sdk
          then tool_messages demo_client (tool_calls demo_sdk) (at_handleRequest demo_world) else [])"
    by blast
  with e ok m have s4: "send_calls (snd (snd (request_handler demo_client demo_sdk (fresh_response, demo_world)))) =
       [\<lparr>msg_type = ''summary'', summary = ''[myhost] Refactor plan'', leafUuid = ''uuid-0''\<rparr>]"
    by simp
  from t2 have "send_calls (snd (snd (request_handler demo_client broken_sdk (fresh_response, demo_world)))) =
       send_calls demo_world @
         (if setup_ok broken_sdk
          then tool_messages demo_client (tool_calls broken_sdk) (at_handleRequest demo_world) else [])"
    by blast
  with e ok have s5: "send_calls (snd (snd (request_handler demo_client broken_sdk (fresh_response, demo_world)))) = []"
    by simp
  from h s1 s2 i s3 s4 s5 show ?thesis
    by blast
qed

end
